theory Spec2Isabelle
  imports Complex_Main
begin

section \<open>The image converter component (ImageConverter.tsx)\<close>

text \<open>
  The component is a React function component. Its state lives in seven \<open>useState\<close>
  cells; every handler is a closure created by one render and sees the values that
  render saw. A state setter changes the committed state, never the values the running
  closure reads. The model therefore passes two things to every handler: the snapshot
  \<open>s\<close> of the render that created the handler, and the world \<open>w\<close> holding the
  committed state, the browser's object-URL store and the conversions still in flight.

  JavaScript numbers are taken as reals. Byte sizes are integers below \<open>2^53\<close>, where
  division by a power of two is exact in binary64, so the quotients the formatter prints
  are the real quotients.
\<close>

subsection \<open>Data\<close>

datatype format = Jpeg | Png | Webp | Avif

fun format_name :: "format \<Rightarrow> string" where
  "format_name Jpeg = ''jpeg''"
| "format_name Png = ''png''"
| "format_name Webp = ''webp''"
| "format_name Avif = ''avif''"

text \<open>A \<open>File\<close> and a \<open>Blob\<close>, as far as the component reads them: the declared type and the size.\<close>

record jsfile =
  ftype :: string
  fsize :: nat

record blob =
  btype :: string
  bsize :: nat

text \<open>What an object URL refers to: the source file or an encoded blob.\<close>

datatype obj = OfFile jsfile | OfBlob blob

fun is_converted :: "obj \<Rightarrow> bool" where
  "is_converted (OfBlob b) = True"
| "is_converted (OfFile f) = False"

text \<open>
  The browser as the component uses it. \<open>URL.createObjectURL\<close> returns a locator never
  returned before; \<open>store\<close> holds the live locators; \<open>revocations\<close> logs every call of
  \<open>URL.revokeObjectURL\<close>; \<open>downloads\<close> logs every clicked download link as
  (href, file name).
\<close>

record browser =
  next_id :: nat
  store :: "(nat \<times> obj) list"
  revocations :: "nat list"
  downloads :: "(nat \<times> string) list"

definition createObjectURL :: "obj \<Rightarrow> browser \<Rightarrow> nat \<times> browser" where
  "createObjectURL x b =
     (next_id b, b\<lparr>next_id := Suc (next_id b), store := store b @ [(next_id b, x)]\<rparr>)"

definition revokeObjectURL :: "nat \<Rightarrow> browser \<Rightarrow> browser" where
  "revokeObjectURL u b =
     b\<lparr>store := filter (\<lambda>e. fst e \<noteq> u) (store b), revocations := revocations b @ [u]\<rparr>"

text \<open>The seven \<open>useState\<close> cells (\<open>cur_file\<close> is the cell \<open>file\<close>).\<close>

record state =
  cur_file :: "jsfile option"
  format :: format
  quality :: real
  convertedUrl :: "nat option"
  convertedBlob :: "blob option"
  originalUrl :: "nat option"
  zoomLevel :: real

definition initial_state :: state where
  "initial_state =
     \<lparr>cur_file = None, format = Jpeg, quality = 8 / 10, convertedUrl = None,
      convertedBlob = None, originalUrl = None, zoomLevel = 1\<rparr>"

text \<open>
  A conversion in flight: the \<open>Image\<close> created by \<open>convertOnly\<close>, waiting for its
  \<open>onload\<close>. The handler is a closure of the render that called \<open>convertOnly\<close>, so the
  task keeps that render's snapshot.
\<close>

record task =
  inputFile :: jsfile
  src :: nat
  closure :: state

record world =
  live :: state
  env :: browser
  pending :: "task list"

definition initial_browser :: browser where
  "initial_browser = \<lparr>next_id = 0, store = [], revocations = [], downloads = []\<rparr>"

definition initial_world :: world where
  "initial_world = \<lparr>live = initial_state, env = initial_browser, pending = []\<rparr>"

text \<open>
  The platform's raster capability, which the component only calls:
  whether \<open>canvas.getContext("2d")\<close> yields a context, and what \<open>canvas.toBlob\<close> hands to
  its callback for a given MIME type, quality and decoded source (\<open>None\<close> is \<open>null\<close>).
\<close>

record platform =
  getContext :: bool
  toBlob :: "string \<Rightarrow> real \<Rightarrow> jsfile \<Rightarrow> blob option"

subsection \<open>The conversion (convertOnly)\<close>

text \<open>
  \<open>convertOnly\<close> creates an object URL for the input file, assigns it to a new image and
  returns; the rest runs when the image has loaded.
\<close>

definition convertOnly :: "state \<Rightarrow> jsfile \<Rightarrow> world \<Rightarrow> world" where
  "convertOnly s f w =
     (let (u, b) = createObjectURL (OfFile f) (env w)
      in w\<lparr>env := b, pending := pending w @ [\<lparr>inputFile = f, src = u, closure = s\<rparr>]\<rparr>)"

text \<open>
  The callback of \<open>canvas.toBlob\<close>. \<open>convertedUrl\<close> is the closure's value; the setters
  write the committed state.
\<close>

definition toBlob_callback :: "state \<Rightarrow> blob option \<Rightarrow> world \<Rightarrow> world" where
  "toBlob_callback s r w =
     (case r of
        None \<Rightarrow> w
      | Some b \<Rightarrow>
          (let e1 = (case convertedUrl s of
                       Some u \<Rightarrow> revokeObjectURL u (env w)
                     | None \<Rightarrow> env w);
               (newUrl, e2) = createObjectURL (OfBlob b) e1
           in w\<lparr>env := e2,
                live := (live w)\<lparr>convertedUrl := Some newUrl, convertedBlob := Some b\<rparr>\<rparr>))"

text \<open>
  \<open>img.onload\<close>: without a 2D context it returns; otherwise it draws the image and calls
  \<open>canvas.toBlob\<close> with the type and quality of the closure. Nothing between the load and
  the callback reads or writes the component's state, so the callback runs in the same step.
\<close>

definition mime :: "format \<Rightarrow> string" where
  "mime fmt = ''image/'' @ format_name fmt"

definition img_onload :: "platform \<Rightarrow> task \<Rightarrow> world \<Rightarrow> world" where
  "img_onload P t w =
     (if \<not> getContext P then w
      else toBlob_callback (closure t)
             (toBlob P (mime (format (closure t))) (quality (closure t)) (inputFile t)) w)"

text \<open>The image of the \<open>k\<close>-th conversion in flight finishes loading.\<close>

definition complete :: "platform \<Rightarrow> nat \<Rightarrow> world \<Rightarrow> world" where
  "complete P k w =
     (if k < length (pending w)
      then img_onload P (pending w ! k) (w\<lparr>pending := take k (pending w) @ drop (Suc k) (pending w)\<rparr>)
      else w)"

subsection \<open>Ingestion and parameters\<close>

text \<open>\<open>str.split("/")\<close> for a one-character separator, and the element at index 1.\<close>

fun split_on :: "char \<Rightarrow> string \<Rightarrow> string list" where
  "split_on c [] = [[]]"
| "split_on c (x # xs) =
     (if x = c then [] # split_on c xs
      else (case split_on c xs of
              [] \<Rightarrow> [[x]]
            | p # ps \<Rightarrow> (x # p) # ps))"

definition subtype :: "jsfile \<Rightarrow> string option" where
  "subtype f = (case split_on CHR ''/'' (ftype f) of
                  _ # e # _ \<Rightarrow> Some e
                | _ \<Rightarrow> None)"

definition autoConvert :: "state \<Rightarrow> jsfile \<Rightarrow> world \<Rightarrow> world" where
  "autoConvert s f w =
     (let ext = subtype f;
          w1 = (if ext = Some ''jpeg'' \<or> ext = Some ''jpg''
                then w\<lparr>live := (live w)\<lparr>format := Png\<rparr>\<rparr>
                else w\<lparr>live := (live w)\<lparr>format := Jpeg\<rparr>\<rparr>)
      in convertOnly s f w1)"

definition handleNewFile :: "state \<Rightarrow> jsfile \<Rightarrow> world \<Rightarrow> world" where
  "handleNewFile s f w =
     (let (url, b) = createObjectURL (OfFile f) (env w);
          w1 = w\<lparr>env := b, live := (live w)\<lparr>cur_file := Some f, originalUrl := Some url\<rparr>\<rparr>
      in autoConvert s f w1)"

definition handleFormatChange :: "state \<Rightarrow> format \<Rightarrow> world \<Rightarrow> world" where
  "handleFormatChange s v w =
     (let w1 = w\<lparr>live := (live w)\<lparr>format := v\<rparr>\<rparr>
      in case cur_file s of Some f \<Rightarrow> convertOnly s f w1 | None \<Rightarrow> w1)"

definition handleQualityChange :: "state \<Rightarrow> real \<Rightarrow> world \<Rightarrow> world" where
  "handleQualityChange s newQuality w =
     (let w1 = w\<lparr>live := (live w)\<lparr>quality := newQuality\<rparr>\<rparr>
      in case cur_file s of Some f \<Rightarrow> convertOnly s f w1 | None \<Rightarrow> w1)"

subsection \<open>Reset, download, zoom\<close>

definition handleReset :: "world \<Rightarrow> world" where
  "handleReset w =
     w\<lparr>live := (live w)\<lparr>cur_file := None, originalUrl := None, convertedUrl := None,
                          convertedBlob := None, zoomLevel := 1\<rparr>\<rparr>"

definition handleDownload :: "state \<Rightarrow> world \<Rightarrow> world" where
  "handleDownload s w =
     (case convertedBlob s of
        None \<Rightarrow> w
      | Some b \<Rightarrow>
          (let (href, e) = createObjectURL (OfBlob b) (env w)
           in w\<lparr>env := e\<lparr>downloads := downloads e @ [(href, ''converted.'' @ format_name (format s))]\<rparr>\<rparr>))"

text \<open>The zoom setters take an updater function, which React applies to the committed value.\<close>

definition zoomIn :: "world \<Rightarrow> world" where
  "zoomIn w = w\<lparr>live := (live w)\<lparr>zoomLevel := min (zoomLevel (live w) + 1 / 10) 3\<rparr>\<rparr>"

definition zoomOut :: "world \<Rightarrow> world" where
  "zoomOut w = w\<lparr>live := (live w)\<lparr>zoomLevel := max (zoomLevel (live w) - 1 / 10) (1 / 2)\<rparr>\<rparr>"

definition zoomFit :: "world \<Rightarrow> world" where
  "zoomFit w = w\<lparr>live := (live w)\<lparr>zoomLevel := 1\<rparr>\<rparr>"

subsection \<open>Events\<close>

text \<open>
  A clipboard item: its declared type and what \<open>getAsFile\<close> returns.
\<close>

record clip_item =
  item_type :: string
  getAsFile :: "jsfile option"

text \<open>
  The paste listener is registered by an effect whose only dependency, \<open>moveSlider\<close>,
  never changes: the registered \<open>handlePaste\<close> is the one of the first render, and so are
  the \<open>handleNewFile\<close>, \<open>autoConvert\<close> and \<open>convertOnly\<close> it reaches.
\<close>

fun handlePaste :: "state \<Rightarrow> clip_item list \<Rightarrow> world \<Rightarrow> world" where
  "handlePaste s [] w = w"
| "handlePaste s (item # items) w =
     handlePaste s items
       (if take 6 (item_type item) = ''image/''
        then (case getAsFile item of Some pastedFile \<Rightarrow> handleNewFile s pastedFile w | None \<Rightarrow> w)
        else w)"

definition onDrop :: "state \<Rightarrow> jsfile list \<Rightarrow> world \<Rightarrow> world" where
  "onDrop s acceptedFiles w =
     (case acceptedFiles of [] \<Rightarrow> w | f # _ \<Rightarrow> handleNewFile s f w)"

datatype event =
    Drop "jsfile list"
  | Paste "clip_item list"
  | FormatChange format
  | QualityChange real
  | Reset
  | Download
  | ZoomIn
  | ZoomOut
  | ZoomFit
  | Loaded nat

text \<open>
  React renders again after every handler that sets state, so a handler bound in the
  markup (or handed to the drop zone on every render) is the closure of the committed
  state.
\<close>

fun fire :: "platform \<Rightarrow> event \<Rightarrow> world \<Rightarrow> world" where
  "fire P (Drop fs) w = onDrop (live w) fs w"
| "fire P (Paste items) w = handlePaste initial_state items w"
| "fire P (FormatChange v) w = handleFormatChange (live w) v w"
| "fire P (QualityChange q) w = handleQualityChange (live w) q w"
| "fire P Reset w = handleReset w"
| "fire P Download w = handleDownload (live w) w"
| "fire P ZoomIn w = zoomIn w"
| "fire P ZoomOut w = zoomOut w"
| "fire P ZoomFit w = zoomFit w"
| "fire P (Loaded k) w = complete P k w"

fun run :: "platform \<Rightarrow> event list \<Rightarrow> world \<Rightarrow> world" where
  "run P [] w = w"
| "run P (e # es) w = run P es (fire P e w)"


definition live_original :: "world \<Rightarrow> nat list" where
  "live_original w = map fst (filter (\<lambda>e. \<not> is_converted (snd e)) (store (env w)))"

subsection \<open>Byte sizes and the converted label\<close>

text \<open>
  \<open>show_nat\<close> is the decimal text of a non-negative integer. \<open>toFixed1\<close> is
  \<open>Number.prototype.toFixed(1)\<close> on a non-negative number: the integer \<open>t\<close> with \<open>t / 10\<close>
  nearest to \<open>x\<close>, the larger one on a tie, printed with one decimal.
\<close>

fun show_nat :: "nat \<Rightarrow> string" where
  "show_nat n =
     (if n < 10 then [''0123456789'' ! n]
      else show_nat (n div 10) @ [''0123456789'' ! (n mod 10)])"

declare show_nat.simps [simp del]

definition tenths :: "real \<Rightarrow> nat" where
  "tenths x = nat \<lfloor>x * 10 + 1 / 2\<rfloor>"

definition toFixed1 :: "real \<Rightarrow> string" where
  "toFixed1 x = show_nat (tenths x div 10) @ ''.'' @ show_nat (tenths x mod 10)"

definition formatFileSize :: "nat \<Rightarrow> string" where
  "formatFileSize sz =
     (if sz < 1024 then show_nat sz @ '' B''
      else if sz < 1024 * 1024 then toFixed1 (real sz / 1024) @ '' KB''
      else toFixed1 (real sz / (1024 * 1024)) @ '' MB'')"

definition upper_char :: "char \<Rightarrow> char" where
  "upper_char c =
     (let n = of_char c :: nat in if 97 \<le> n \<and> n \<le> 122 then char_of (n - 32) else c)"

definition toUpperCase :: "string \<Rightarrow> string" where
  "toUpperCase = map upper_char"

text \<open>The label under the converted image; the dash is U+2014 in UTF-8.\<close>

definition converted_label :: "state \<Rightarrow> string" where
  "converted_label s =
     ''Converted: '' @ toUpperCase (format_name (format s)) @ '' '' @
     [CHR 0xE2, CHR 0x80, CHR 0x94] @ '' '' @
     (case convertedBlob s of Some b \<Rightarrow> formatFileSize (bsize b) | None \<Rightarrow> ''0B'')"

subsection \<open>The comparison slider (moveSlider)\<close>

text \<open>
  The slider writes two inline styles through refs. A ref is \<open>None\<close> while its element
  is not mounted. A number is \<open>NaN\<close> when the division is \<open>0 / 0\<close>; a non-zero numerator
  over a zero width is an infinity, which the clamp turns into 0 or 100.
\<close>

datatype jsnum = Num real | NaN

record rect =
  rect_left :: real
  rect_width :: real

datatype clip = Inset jsnum jsnum jsnum jsnum

record slider =
  containerRef :: "rect option"
  clipRef :: "clip option"
  dividerRef :: "jsnum option"

definition slider_pos :: "real \<Rightarrow> rect \<Rightarrow> jsnum" where
  "slider_pos clientX r =
     (if rect_width r = 0
      then (if clientX - rect_left r > 0 then Num 100
            else if clientX - rect_left r < 0 then Num 0
            else NaN)
      else Num (min (max (((clientX - rect_left r) / rect_width r) * 100) 0) 100))"

fun minus_from_100 :: "jsnum \<Rightarrow> jsnum" where
  "minus_from_100 (Num p) = Num (100 - p)"
| "minus_from_100 NaN = NaN"

definition moveSlider :: "real \<Rightarrow> slider \<Rightarrow> slider" where
  "moveSlider clientX d =
     (case (containerRef d, clipRef d, dividerRef d) of
        (Some r, Some c, Some l) \<Rightarrow>
          (let pos = slider_pos clientX r
           in d\<lparr>clipRef := Some (Inset (Num 0) (minus_from_100 pos) (Num 0) (Num 0)),
                dividerRef := Some pos\<rparr>)
      | _ \<Rightarrow> d)"

subsection \<open>Fixed inputs for the examples\<close>

definition png_file :: jsfile where
  "png_file = \<lparr>ftype = ''image/png'', fsize = 2048\<rparr>"

definition jpeg_file :: jsfile where
  "jpeg_file = \<lparr>ftype = ''image/jpeg'', fsize = 4096\<rparr>"

text \<open>A platform that encodes everything, the output recording the type and quality asked for.\<close>

definition echo_platform :: platform where
  "echo_platform =
     \<lparr>getContext = True,
      toBlob = (\<lambda>ty q f. Some \<lparr>btype = ty, bsize = nat \<lfloor>q * real (fsize f)\<rfloor>\<rparr>)\<rparr>"

text \<open>A platform whose encoder hands back a blob of zero bytes.\<close>

definition empty_platform :: platform where
  "empty_platform =
     \<lparr>getContext = True, toBlob = (\<lambda>ty q f. Some \<lparr>btype = ty, bsize = 0\<rparr>)\<rparr>"

text \<open>A platform whose encoder fails.\<close>

definition failing_platform :: platform where
  "failing_platform = \<lparr>getContext = True, toBlob = (\<lambda>ty q f. None)\<rparr>"

text \<open>The world after \<open>png_file\<close> was dropped and its first conversion has completed.\<close>

definition loaded_world :: world where
  "loaded_world = run echo_platform [Drop [png_file], Loaded 0] initial_world"

text \<open>The same world after the format selector was set to PNG: one conversion is in flight.\<close>

definition changing_world :: world where
  "changing_world = fire echo_platform (FormatChange Png) loaded_world"

text \<open>A slider whose container spans the pixels 10 to 210, as first rendered.\<close>

definition mounted_slider :: slider where
  "mounted_slider =
     \<lparr>containerRef = Some \<lparr>rect_left = 10, rect_width = 200\<rparr>,
      clipRef = Some (Inset (Num 0) (Num 50) (Num 0) (Num 0)),
      dividerRef = Some (Num 50)\<rparr>"

subsection \<open>Predicates used by the statements\<close>

definition zoom_ok :: "world \<Rightarrow> bool" where
  "zoom_ok w = (1 / 2 \<le> zoomLevel (live w) \<and> zoomLevel (live w) \<le> 3)"





text \<open>Reading a decimal text back, to check \<open>show_nat\<close> against.\<close>

definition digit_value :: "char \<Rightarrow> nat" where
  "digit_value c = of_char c - 48"

definition read_nat :: "string \<Rightarrow> nat" where
  "read_nat cs = foldl (\<lambda>a c. 10 * a + digit_value c) 0 cs"



text \<open>
  The decimal text of a number, as the format's words have it: digits only, no leading
  zero except for zero itself, and the value read back is the number.
\<close>

definition is_digit :: "char \<Rightarrow> bool" where
  "is_digit c = (c \<in> set ''0123456789'')"

definition decimal :: "string \<Rightarrow> nat \<Rightarrow> bool" where
  "decimal ds k =
     (ds \<noteq> [] \<and> list_all is_digit ds \<and> (hd ds = CHR ''0'' \<longrightarrow> ds = ''0'') \<and> read_nat ds = k)"

section \<open>Properties\<close>

subsection \<open>Auxiliary facts\<close>

lemmas run_defs =
  onDrop_def handleNewFile_def autoConvert_def convertOnly_def handleFormatChange_def
  handleQualityChange_def handleReset_def handleDownload_def complete_def img_onload_def
  toBlob_callback_def createObjectURL_def revokeObjectURL_def subtype_def mime_def
  initial_world_def initial_state_def initial_browser_def Let_def

lemma loaded_world_eq:
  "loaded_world =
     \<lparr>live = \<lparr>cur_file = Some png_file, format = Jpeg, quality = 8 / 10, convertedUrl = Some 2,
              convertedBlob = Some \<lparr>btype = ''image/jpeg'', bsize = 1638\<rparr>,
              originalUrl = Some 0, zoomLevel = 1\<rparr>,
      env = \<lparr>next_id = 3,
             store = [(0, OfFile png_file), (1, OfFile png_file),
                      (2, OfBlob \<lparr>btype = ''image/jpeg'', bsize = 1638\<rparr>)],
             revocations = [], downloads = []\<rparr>,
      pending = []\<rparr>"
  by (simp add: loaded_world_def run_defs echo_platform_def png_file_def)

lemma changing_world_eq:
  "changing_world =
     \<lparr>live = \<lparr>cur_file = Some png_file, format = Png, quality = 8 / 10, convertedUrl = Some 2,
              convertedBlob = Some \<lparr>btype = ''image/jpeg'', bsize = 1638\<rparr>,
              originalUrl = Some 0, zoomLevel = 1\<rparr>,
      env = \<lparr>next_id = 4,
             store = [(0, OfFile png_file), (1, OfFile png_file),
                      (2, OfBlob \<lparr>btype = ''image/jpeg'', bsize = 1638\<rparr>),
                      (3, OfFile png_file)],
             revocations = [], downloads = []\<rparr>,
      pending = [\<lparr>inputFile = png_file, src = 3, closure = live loaded_world\<rparr>]\<rparr>"
  by (simp add: changing_world_def loaded_world_eq handleFormatChange_def convertOnly_def
      createObjectURL_def)

lemma live_convertOnly: "live (convertOnly s f w) = live w"
  by (simp add: convertOnly_def createObjectURL_def)

lemma split_on_no_sep: "c \<notin> set b \<Longrightarrow> split_on c b = [b]"
  by (induction b) auto

lemma split_on_first: "c \<notin> set a \<Longrightarrow> split_on c (a @ c # b) = a # split_on c b"
  by (induction a) auto

lemma subtype_plain:
  assumes "ftype f = a @ ''/'' @ b" "CHR ''/'' \<notin> set a" "CHR ''/'' \<notin> set b"
  shows "subtype f = Some b"
  using assms by (simp add: subtype_def split_on_first split_on_no_sep)

lemma format_handleNewFile:
  "format (live (handleNewFile s f w)) =
     (if subtype f = Some ''jpeg'' \<or> subtype f = Some ''jpg'' then Png else Jpeg)"
  by (simp add: handleNewFile_def autoConvert_def live_convertOnly createObjectURL_def Let_def)

text \<open>No handler but the zoom buttons and reset writes the zoom cell.\<close>

lemma zoom_convertOnly: "zoomLevel (live (convertOnly s f w)) = zoomLevel (live w)"
  by (simp add: live_convertOnly)

lemma zoom_handleNewFile: "zoomLevel (live (handleNewFile s f w)) = zoomLevel (live w)"
  by (simp add: handleNewFile_def autoConvert_def zoom_convertOnly createObjectURL_def Let_def)

lemma zoom_handlePaste: "zoomLevel (live (handlePaste s items w)) = zoomLevel (live w)"
  by (induction items arbitrary: w) (simp_all add: zoom_handleNewFile split: option.splits)

lemma zoom_toBlob_callback: "zoomLevel (live (toBlob_callback s r w)) = zoomLevel (live w)"
  by (simp add: toBlob_callback_def createObjectURL_def Let_def split: option.splits prod.splits)

lemma zoom_complete: "zoomLevel (live (complete P k w)) = zoomLevel (live w)"
  by (simp add: complete_def img_onload_def zoom_toBlob_callback)

lemma zoom_fire_bounds:
  assumes "zoom_ok w"
  shows "zoom_ok (fire P e w)"
proof (cases e)
  case (Drop fs)
  then show ?thesis using assms
    by (simp add: zoom_ok_def onDrop_def zoom_handleNewFile split: list.splits)
next
  case (Paste items)
  then show ?thesis using assms by (simp add: zoom_ok_def zoom_handlePaste)
next
  case (FormatChange v)
  then show ?thesis using assms
    by (simp add: zoom_ok_def handleFormatChange_def zoom_convertOnly Let_def split: option.splits)
next
  case (QualityChange q)
  then show ?thesis using assms
    by (simp add: zoom_ok_def handleQualityChange_def zoom_convertOnly Let_def split: option.splits)
next
  case Reset
  then show ?thesis by (simp add: zoom_ok_def handleReset_def)
next
  case Download
  then show ?thesis using assms
    by (simp add: zoom_ok_def handleDownload_def createObjectURL_def Let_def split: option.splits)
next
  case ZoomIn
  then show ?thesis using assms by (simp add: zoom_ok_def zoomIn_def)
next
  case ZoomOut
  then show ?thesis using assms by (simp add: zoom_ok_def zoomOut_def)
next
  case ZoomFit
  then show ?thesis by (simp add: zoom_ok_def zoomFit_def)
next
  case (Loaded k)
  then show ?thesis using assms by (simp add: zoom_ok_def zoom_complete)
qed

lemma zoom_run_bounds: "zoom_ok w \<Longrightarrow> zoom_ok (run P es w)"
  by (induction es arbitrary: w) (simp_all add: zoom_fire_bounds)

lemma slider_pos_left:
  assumes "0 \<le> rect_width r" "x < rect_left r"
  shows "slider_pos x r = Num 0"
proof (cases "rect_width r = 0")
  case True
  with assms(2) show ?thesis by (simp add: slider_pos_def)
next
  case False
  with assms(1) have pos: "0 < rect_width r" by simp
  define q where "q = (x - rect_left r) / rect_width r"
  from assms(2) have "x - rect_left r < 0" by simp
  from this pos have "q < 0"
    unfolding q_def by (rule divide_neg_pos)
  then have "min (max (q * 100) 0) 100 = 0" by simp
  with False show ?thesis
    unfolding slider_pos_def q_def by simp
qed

lemma slider_pos_right:
  assumes "0 \<le> rect_width r" "rect_left r + rect_width r < x"
  shows "slider_pos x r = Num 100"
proof (cases "rect_width r = 0")
  case True
  with assms(2) show ?thesis by (simp add: slider_pos_def)
next
  case False
  with assms(1) have pos: "0 < rect_width r" by simp
  define q where "q = (x - rect_left r) / rect_width r"
  from assms(2) have "rect_width r < x - rect_left r" by simp
  with pos have "1 < q"
    unfolding q_def by (simp add: less_divide_eq)
  then have "min (max (q * 100) 0) 100 = 100" by simp
  with False show ?thesis
    unfolding slider_pos_def q_def by simp
qed

text \<open>The decimal text and the nearest tenth.\<close>

lemma digit_value_nth: "d < 10 \<Longrightarrow> digit_value (''0123456789'' ! d) = d"
proof -
  assume "d < 10"
  then have "d \<in> {0, 1, 2, 3, 4, 5, 6, 7, 8, 9}" by auto
  then show ?thesis by (auto simp: digit_value_def)
qed

lemma read_show_nat: "read_nat (show_nat n) = n"
proof (induction n rule: show_nat.induct)
  case (1 n)
  show ?case
  proof (cases "n < 10")
    case True
    then show ?thesis
      by (subst show_nat.simps) (simp add: read_nat_def digit_value_nth)
  next
    case False
    then have ih: "read_nat (show_nat (n div 10)) = n div 10"
      using 1 by simp
    have "read_nat (show_nat n) = 10 * read_nat (show_nat (n div 10)) + n mod 10"
      using False by (subst show_nat.simps) (simp add: read_nat_def digit_value_nth)
    then show ?thesis by (simp add: ih)
  qed
qed

lemma digit_nth_is_digit: "d < 10 \<Longrightarrow> is_digit (''0123456789'' ! d)"
proof -
  assume "d < 10"
  then have "d \<in> {0, 1, 2, 3, 4, 5, 6, 7, 8, 9}" by auto
  then show ?thesis by (auto simp: is_digit_def)
qed

lemma digit_nth_zero: "d < 10 \<Longrightarrow> ''0123456789'' ! d = CHR ''0'' \<Longrightarrow> d = 0"
proof -
  assume "d < 10" and z: "''0123456789'' ! d = CHR ''0''"
  then have "d \<in> {0, 1, 2, 3, 4, 5, 6, 7, 8, 9}" by auto
  with z show ?thesis by auto
qed

lemma nth_digit_value: "is_digit c \<Longrightarrow> ''0123456789'' ! digit_value c = c \<and> digit_value c < 10"
  by (auto simp: is_digit_def digit_value_def)

lemma show_nat_nonempty: "show_nat n \<noteq> []"
  by (subst show_nat.simps) simp

lemma show_nat_digits: "list_all is_digit (show_nat n)"
proof (induction n rule: show_nat.induct)
  case (1 n)
  show ?case
  proof (cases "n < 10")
    case True
    then show ?thesis by (subst show_nat.simps) (simp add: digit_nth_is_digit)
  next
    case False
    with 1 have "list_all is_digit (show_nat (n div 10))" by simp
    with False show ?thesis by (subst show_nat.simps) (simp add: digit_nth_is_digit)
  qed
qed

lemma show_nat_leading: "0 < n \<Longrightarrow> hd (show_nat n) \<noteq> CHR ''0''"
proof (induction n rule: show_nat.induct)
  case (1 n)
  show ?case
  proof (cases "n < 10")
    case True
    with "1.prems" digit_nth_zero [of n] show ?thesis
      by (subst show_nat.simps) auto
  next
    case False
    then have "0 < n div 10" by simp
    with 1 False have "hd (show_nat (n div 10)) \<noteq> CHR ''0''" by simp
    with False show ?thesis
      by (subst show_nat.simps) (simp add: show_nat_nonempty)
  qed
qed

lemma show_nat_zero: "show_nat 0 = ''0''"
  by (subst show_nat.simps) simp

lemma decimal_show_nat: "decimal (show_nat n) n"
proof (cases "n = 0")
  case True
  then show ?thesis
    by (simp add: decimal_def show_nat_zero is_digit_def read_nat_def digit_value_def)
next
  case False
  then have "hd (show_nat n) \<noteq> CHR ''0''" by (simp add: show_nat_leading)
  then show ?thesis
    by (simp add: decimal_def show_nat_nonempty show_nat_digits read_show_nat)
qed

lemma foldl_read_ge: "a \<le> foldl (\<lambda>a c. 10 * a + digit_value c) a cs"
proof (induction cs arbitrary: a)
  case Nil
  show ?case by simp
next
  case (Cons c cs)
  have "a \<le> 10 * a + digit_value c" by simp
  also have "\<dots> \<le> foldl (\<lambda>a c. 10 * a + digit_value c) (10 * a + digit_value c) cs"
    by (rule Cons.IH)
  finally show ?case by simp
qed

lemma read_nat_snoc: "read_nat (cs @ [c]) = 10 * read_nat cs + digit_value c"
  by (simp add: read_nat_def)

lemma read_nat_pos:
  assumes "cs \<noteq> []" "hd cs \<noteq> CHR ''0''" "is_digit (hd cs)"
  shows "0 < read_nat cs"
proof -
  from assms(1) obtain c rest where cs: "cs = c # rest" by (cases cs) auto
  with assms have "0 < digit_value c"
    by (auto simp: is_digit_def digit_value_def)
  moreover have "digit_value c \<le> read_nat cs"
    using foldl_read_ge [of "digit_value c" rest] by (simp add: cs read_nat_def)
  ultimately show ?thesis by simp
qed

lemma decimal_unique: "decimal ds k \<Longrightarrow> ds = show_nat k"
proof (induction ds arbitrary: k rule: rev_induct)
  case Nil
  then show ?case by (simp add: decimal_def)
next
  case (snoc c cs)
  from snoc.prems have dig: "is_digit c" "list_all is_digit cs"
    and k: "k = 10 * read_nat cs + digit_value c"
    and lead: "hd (cs @ [c]) = CHR ''0'' \<longrightarrow> cs @ [c] = ''0''"
    by (simp_all add: decimal_def read_nat_snoc)
  from nth_digit_value [OF dig(1)] have c: "''0123456789'' ! digit_value c = c"
    and d: "digit_value c < 10" by simp_all
  show ?case
  proof (cases "cs = []")
    case True
    with k have "k = digit_value c" by (simp add: read_nat_def)
    with d c True show ?thesis by (subst show_nat.simps) simp
  next
    case False
    with lead have h: "hd cs \<noteq> CHR ''0''" by auto
    from False dig(2) have hd_dig: "is_digit (hd cs)" by (cases cs) simp_all
    have dec: "decimal cs (read_nat cs)"
      using False dig(2) h by (simp add: decimal_def)
    then have ih: "cs = show_nat (read_nat cs)" by (rule snoc.IH)
    from read_nat_pos [OF False h hd_dig] have "0 < read_nat cs" .
    with k d have big: "\<not> k < 10" and dv: "k div 10 = read_nat cs" and md: "k mod 10 = digit_value c"
      by simp_all
    have "show_nat k = show_nat (k div 10) @ [''0123456789'' ! (k mod 10)]"
      using big by (subst show_nat.simps) simp
    with dv md c ih show ?thesis by simp
  qed
qed

lemma tenths_bounds:
  assumes "0 \<le> x"
  shows "x * 10 - 1 / 2 < real (tenths x) \<and> real (tenths x) \<le> x * 10 + 1 / 2"
proof -
  define y where "y = x * 10 + 1 / 2"
  have y0: "0 \<le> y" using assms by (simp add: y_def)
  then have "0 \<le> \<lfloor>y\<rfloor>" by simp
  then have t: "real (tenths x) = of_int \<lfloor>y\<rfloor>"
    by (simp add: tenths_def y_def)
  define z :: real where "z = of_int \<lfloor>y\<rfloor>"
  have "z \<le> y" "y < z + 1"
    unfolding z_def by linarith+
  then have "z \<le> x * 10 + 1 / 2" "x * 10 + 1 / 2 < z + 1"
    by (simp_all only: y_def)
  then have "x * 10 - 1 / 2 < z \<and> z \<le> x * 10 + 1 / 2"
    by linarith
  then show ?thesis
    by (simp only: t z_def)
qed



















subsection \<open>Claims\<close>

text \<open>
  C4, as the code has it: when the encoder hands \<open>null\<close> to the callback, the completion
  of the conversion changes neither the component's state (converted blob, converted
  locator) nor the object-URL store, so the converted label stays as it was.
\<close>

theorem encode_null_keeps_state:
  assumes "k < length (pending w)"
      and "toBlob P (mime (format (closure (pending w ! k)))) (quality (closure (pending w ! k)))
             (inputFile (pending w ! k)) = None"
  shows "live (complete P k w) = live w \<and> env (complete P k w) = env w
         \<and> converted_label (live (complete P k w)) = converted_label (live w)"
  using assms by (simp add: complete_def img_onload_def toBlob_callback_def)

theorem encode_null_keeps_state_witness:
  "0 < length (pending changing_world)
   \<and> live (complete failing_platform 0 changing_world) = live changing_world
   \<and> env (complete failing_platform 0 changing_world) = env changing_world
   \<and> convertedBlob (live (complete failing_platform 0 changing_world))
       = Some \<lparr>btype = ''image/jpeg'', bsize = 1638\<rparr>"
  using encode_null_keeps_state [of 0 changing_world failing_platform]
  by (simp add: changing_world_eq failing_platform_def)

text \<open>
  C4, as stated, fails for an output of zero bytes: the callback tests the blob for
  \<open>null\<close> only, so an empty blob replaces the converted blob and its locator.
\<close>

theorem zero_byte_blob_overwrites:
  "convertedBlob (live changing_world) = Some \<lparr>btype = ''image/jpeg'', bsize = 1638\<rparr>
   \<and> convertedUrl (live changing_world) = Some 2
   \<and> convertedBlob (live (fire empty_platform (Loaded 0) changing_world))
       = Some \<lparr>btype = ''image/jpeg'', bsize = 0\<rparr>
   \<and> convertedUrl (live (fire empty_platform (Loaded 0) changing_world)) = Some 4"
  by (simp add: changing_world_eq loaded_world_eq empty_platform_def complete_def img_onload_def
      toBlob_callback_def createObjectURL_def revokeObjectURL_def mime_def)

text \<open>
  C5: every ingested file sets the target format to PNG when the subtype of its declared
  type is \<open>jpeg\<close> or \<open>jpg\<close>, and to JPEG in every other case, whatever render the
  handler belongs to. The subtype of a declared type \<open>a/b\<close> is \<open>b\<close>.
\<close>

theorem default_format:
  "format (live (handleNewFile s f w))
     = (if subtype f = Some ''jpeg'' \<or> subtype f = Some ''jpg'' then Png else Jpeg)
   \<and> (ftype f = a @ ''/'' @ b \<and> CHR ''/'' \<notin> set a \<and> CHR ''/'' \<notin> set b
        \<longrightarrow> subtype f = Some b
            \<and> format (live (handleNewFile s f w))
                = (if b = ''jpeg'' \<or> b = ''jpg'' then Png else Jpeg))"
  using subtype_plain [of f a b] by (simp add: format_handleNewFile)

theorem default_format_witness:
  "format (live (handleNewFile initial_state jpeg_file initial_world)) = Png
   \<and> format (live (handleNewFile initial_state png_file initial_world)) = Jpeg
   \<and> subtype jpeg_file = Some ''jpeg'' \<and> subtype png_file = Some ''png''"
  using default_format [of initial_state jpeg_file initial_world "''image''" "''jpeg''"]
        default_format [of initial_state png_file initial_world "''image''" "''png''"]
  by (simp add: jpeg_file_def png_file_def)

text \<open>
  C6, as the code has it: reset clears the source file, the converted blob and both
  locator references, and sets the zoom to exactly 1; format and quality stay, and every
  locator of the source file stays live.
\<close>

theorem reset_clears:
  "cur_file (live (handleReset w)) = None \<and> originalUrl (live (handleReset w)) = None
   \<and> convertedUrl (live (handleReset w)) = None \<and> convertedBlob (live (handleReset w)) = None
   \<and> zoomLevel (live (handleReset w)) = 1
   \<and> format (live (handleReset w)) = format (live w)
   \<and> quality (live (handleReset w)) = quality (live w)
   \<and> live_original (handleReset w) = live_original w"
  by (simp add: handleReset_def live_original_def)

text \<open>
  C6, as stated, fails: after a reset of the loaded world the original locator 0 and the
  converted locator 2 are still in the store, and nothing was revoked.
\<close>

theorem reset_revokes_nothing:
  "originalUrl (live loaded_world) = Some 0 \<and> convertedUrl (live loaded_world) = Some 2
   \<and> map fst (store (env (fire echo_platform Reset loaded_world))) = [0, 1, 2]
   \<and> revocations (env (fire echo_platform Reset loaded_world)) = []"
  by (simp add: loaded_world_eq handleReset_def)

text \<open>
  C7: with the three elements mounted, a pointer move at \<open>x\<close> sets the clip of the
  converted layer to the inset (0, 100 - position, 0, 0) and the divider's offset to the
  position. For a container of positive width the position is
  \<open>((x - left) / width) * 100\<close> clamped to [0, 100]; it is 0 for every \<open>x\<close> left of the
  container and 100 for every \<open>x\<close> right of it.
\<close>

theorem slider_position:
  assumes "containerRef d = Some r" "clipRef d = Some c" "dividerRef d = Some l"
      and "0 < rect_width r"
  shows "moveSlider x d =
           d\<lparr>clipRef := Some (Inset (Num 0)
                           (Num (100 - min (max (((x - rect_left r) / rect_width r) * 100) 0) 100))
                           (Num 0) (Num 0)),
             dividerRef := Some (Num (min (max (((x - rect_left r) / rect_width r) * 100) 0) 100))\<rparr>
         \<and> (x < rect_left r \<longrightarrow> dividerRef (moveSlider x d) = Some (Num 0))
         \<and> (rect_left r + rect_width r < x \<longrightarrow> dividerRef (moveSlider x d) = Some (Num 100))"
proof -
  have m: "moveSlider x d =
           d\<lparr>clipRef := Some (Inset (Num 0) (minus_from_100 (slider_pos x r)) (Num 0) (Num 0)),
             dividerRef := Some (slider_pos x r)\<rparr>"
    using assms(1-3) by (simp add: moveSlider_def Let_def)
  have p: "slider_pos x r = Num (min (max (((x - rect_left r) / rect_width r) * 100) 0) 100)"
    using assms(4) by (simp add: slider_pos_def)
  have w: "0 \<le> rect_width r"
    using assms(4) by simp
  have "x < rect_left r \<longrightarrow> dividerRef (moveSlider x d) = Some (Num 0)"
    using slider_pos_left [OF w] by (simp add: m)
  moreover have "rect_left r + rect_width r < x \<longrightarrow> dividerRef (moveSlider x d) = Some (Num 100)"
    using slider_pos_right [OF w] by (simp add: m)
  moreover have "moveSlider x d =
           d\<lparr>clipRef := Some (Inset (Num 0)
                           (Num (100 - min (max (((x - rect_left r) / rect_width r) * 100) 0) 100))
                           (Num 0) (Num 0)),
             dividerRef := Some (Num (min (max (((x - rect_left r) / rect_width r) * 100) 0) 100))\<rparr>"
    unfolding m p by simp
  ultimately show ?thesis by blast
qed

theorem slider_position_witness:
  "moveSlider 30 mounted_slider =
     mounted_slider\<lparr>clipRef := Some (Inset (Num 0) (Num 90) (Num 0) (Num 0)),
                    dividerRef := Some (Num 10)\<rparr>
   \<and> dividerRef (moveSlider (- 500) mounted_slider) = Some (Num 0)
   \<and> dividerRef (moveSlider 900 mounted_slider) = Some (Num 100)"
  using slider_position [of mounted_slider "\<lparr>rect_left = 10, rect_width = 200\<rparr>"
          "Inset (Num 0) (Num 50) (Num 0) (Num 0)" "Num 50" 30]
        slider_position [of mounted_slider "\<lparr>rect_left = 10, rect_width = 200\<rparr>"
          "Inset (Num 0) (Num 50) (Num 0) (Num 0)" "Num 50" "- 500"]
        slider_position [of mounted_slider "\<lparr>rect_left = 10, rect_width = 200\<rparr>"
          "Inset (Num 0) (Num 50) (Num 0) (Num 0)" "Num 50" 900]
  by (simp add: mounted_slider_def)

text \<open>
  C8: zoomIn yields min(current + 0.1, 3), zoomOut yields max(current - 0.1, 0.5), zoomFit
  yields exactly 1, and from the initial zoom 1 every sequence of events, the zoom
  buttons among them, leaves the zoom within [0.5, 3].
\<close>

theorem zoom_range:
  "zoomLevel (live (fire P ZoomIn w)) = min (zoomLevel (live w) + 1 / 10) 3
   \<and> zoomLevel (live (fire P ZoomOut w)) = max (zoomLevel (live w) - 1 / 10) (1 / 2)
   \<and> zoomLevel (live (fire P ZoomFit w)) = 1
   \<and> zoomLevel (live initial_world) = 1
   \<and> 1 / 2 \<le> zoomLevel (live (run P es initial_world))
   \<and> zoomLevel (live (run P es initial_world)) \<le> 3"
proof -
  have "zoom_ok initial_world"
    by (simp add: zoom_ok_def initial_world_def initial_state_def)
  then have "zoom_ok (run P es initial_world)"
    by (rule zoom_run_bounds)
  then have "1 / 2 \<le> zoomLevel (live (run P es initial_world))"
    and "zoomLevel (live (run P es initial_world)) \<le> 3"
    by (simp_all only: zoom_ok_def)
  moreover have "zoomLevel (live (fire P ZoomIn w)) = min (zoomLevel (live w) + 1 / 10) 3"
    by (simp add: zoomIn_def)
  moreover have "zoomLevel (live (fire P ZoomOut w)) = max (zoomLevel (live w) - 1 / 10) (1 / 2)"
    by (simp add: zoomOut_def)
  moreover have "zoomLevel (live (fire P ZoomFit w)) = 1"
    by (simp add: zoomFit_def)
  moreover have "zoomLevel (live initial_world) = 1"
    by (simp add: initial_world_def initial_state_def)
  ultimately show ?thesis by blast
qed

text \<open>
  C10: with no converted blob, the download action returns the world as it was: no
  locator is created, no download is triggered and no state changes.
\<close>

theorem download_noop:
  "convertedBlob (live w) = None \<Longrightarrow> fire P Download w = w"
  by (simp add: handleDownload_def)

theorem download_noop_witness:
  "convertedBlob (live initial_world) = None
   \<and> fire echo_platform Download initial_world = initial_world"
  using download_noop [of initial_world echo_platform]
  by (simp add: initial_world_def initial_state_def)

text \<open>
  C9: a size below 1024 is printed as the decimal text of the integer followed by \<open>B\<close>.
  A size from 1024 up to, not including, 1,048,576 is printed as \<open>i.d KB\<close>, and any
  larger size as \<open>i.d MB\<close>, where \<open>i\<close> and \<open>d\<close> are the decimal texts of \<open>t div 10\<close> and
  \<open>t mod 10\<close> for the one integer \<open>t\<close> whose tenth \<open>t / 10\<close> is nearest to the size
  divided by 1024, respectively 1,048,576 (the upper one of two equally near).
\<close>

theorem byte_size_format:
  "(n < 1024 \<longrightarrow> (\<exists>ds. formatFileSize n = ds @ '' B'' \<and> decimal ds n))
   \<and> (1024 \<le> n \<and> n < 1048576 \<longrightarrow>
        (\<exists>t ip fp. formatFileSize n = ip @ ''.'' @ fp @ '' KB''
           \<and> decimal ip (t div 10) \<and> decimal fp (t mod 10)
           \<and> real n / 1024 * 10 - 1 / 2 < real t \<and> real t \<le> real n / 1024 * 10 + 1 / 2))
   \<and> (1048576 \<le> n \<longrightarrow>
        (\<exists>t ip fp. formatFileSize n = ip @ ''.'' @ fp @ '' MB''
           \<and> decimal ip (t div 10) \<and> decimal fp (t mod 10)
           \<and> real n / 1048576 * 10 - 1 / 2 < real t \<and> real t \<le> real n / 1048576 * 10 + 1 / 2))"
proof -
  have b: "n < 1024 \<longrightarrow> (\<exists>ds. formatFileSize n = ds @ '' B'' \<and> decimal ds n)"
    by (auto simp: formatFileSize_def decimal_show_nat)
  have one: "\<exists>t ip fp. toFixed1 x = ip @ ''.'' @ fp
           \<and> decimal ip (t div 10) \<and> decimal fp (t mod 10)
           \<and> x * 10 - 1 / 2 < real t \<and> real t \<le> x * 10 + 1 / 2" if "0 \<le> x" for x
  proof (intro exI conjI)
    show "toFixed1 x = show_nat (tenths x div 10) @ ''.'' @ show_nat (tenths x mod 10)"
      by (simp add: toFixed1_def)
    show "decimal (show_nat (tenths x div 10)) (tenths x div 10)" by (rule decimal_show_nat)
    show "decimal (show_nat (tenths x mod 10)) (tenths x mod 10)" by (rule decimal_show_nat)
    from tenths_bounds [OF that]
    show "x * 10 - 1 / 2 < real (tenths x)" "real (tenths x) \<le> x * 10 + 1 / 2" by simp_all
  qed
  have kb: "1024 \<le> n \<and> n < 1048576 \<longrightarrow>
        (\<exists>t ip fp. formatFileSize n = ip @ ''.'' @ fp @ '' KB''
           \<and> decimal ip (t div 10) \<and> decimal fp (t mod 10)
           \<and> real n / 1024 * 10 - 1 / 2 < real t \<and> real t \<le> real n / 1024 * 10 + 1 / 2)"
  proof
    assume r: "1024 \<le> n \<and> n < 1048576"
    have "0 \<le> real n / 1024" by simp
    from one [OF this] obtain t ip fp where
      "toFixed1 (real n / 1024) = ip @ ''.'' @ fp" "decimal ip (t div 10)" "decimal fp (t mod 10)"
      "real n / 1024 * 10 - 1 / 2 < real t" "real t \<le> real n / 1024 * 10 + 1 / 2" by blast
    moreover from r have "formatFileSize n = toFixed1 (real n / 1024) @ '' KB''"
      by (simp add: formatFileSize_def)
    ultimately show "\<exists>t ip fp. formatFileSize n = ip @ ''.'' @ fp @ '' KB''
           \<and> decimal ip (t div 10) \<and> decimal fp (t mod 10)
           \<and> real n / 1024 * 10 - 1 / 2 < real t \<and> real t \<le> real n / 1024 * 10 + 1 / 2"
      by auto
  qed
  have mb: "1048576 \<le> n \<longrightarrow>
        (\<exists>t ip fp. formatFileSize n = ip @ ''.'' @ fp @ '' MB''
           \<and> decimal ip (t div 10) \<and> decimal fp (t mod 10)
           \<and> real n / 1048576 * 10 - 1 / 2 < real t \<and> real t \<le> real n / 1048576 * 10 + 1 / 2)"
  proof
    assume r: "1048576 \<le> n"
    have "0 \<le> real n / 1048576" by simp
    from one [OF this] obtain t ip fp where
      "toFixed1 (real n / 1048576) = ip @ ''.'' @ fp" "decimal ip (t div 10)" "decimal fp (t mod 10)"
      "real n / 1048576 * 10 - 1 / 2 < real t" "real t \<le> real n / 1048576 * 10 + 1 / 2" by blast
    moreover from r have "formatFileSize n = toFixed1 (real n / 1048576) @ '' MB''"
      by (simp add: formatFileSize_def)
    ultimately show "\<exists>t ip fp. formatFileSize n = ip @ ''.'' @ fp @ '' MB''
           \<and> decimal ip (t div 10) \<and> decimal fp (t mod 10)
           \<and> real n / 1048576 * 10 - 1 / 2 < real t \<and> real t \<le> real n / 1048576 * 10 + 1 / 2"
      by auto
  qed
  from b kb mb show ?thesis by blast
qed

theorem byte_size_format_witness:
  "formatFileSize 1023 = ''1023 B'' \<and> formatFileSize 1280 = ''1.3 KB''
   \<and> formatFileSize 5000000 = ''4.8 MB''"
proof -
  have s1023: "show_nat 1023 = ''1023''" and s1: "show_nat (Suc 0) = ''1''"
    and s3: "show_nat 3 = ''3''" and s4: "show_nat 4 = ''4''" and s8: "show_nat 8 = ''8''"
    by (simp_all add: show_nat.simps)
  from byte_size_format [of 1023] obtain ds where
    "formatFileSize 1023 = ds @ '' B''" "decimal ds 1023" by auto
  with decimal_unique [of ds 1023] have a: "formatFileSize 1023 = ''1023 B''"
    by (simp add: s1023)
  from byte_size_format [of 1280] obtain t ip fp where
    k: "formatFileSize 1280 = ip @ ''.'' @ fp @ '' KB''"
      "decimal ip (t div 10)" "decimal fp (t mod 10)"
    and "real 1280 / 1024 * 10 - 1 / 2 < real t" "real t \<le> real 1280 / 1024 * 10 + 1 / 2"
    by auto
  then have "12 < t" "t \<le> 13" by simp_all
  then have "t = 13" by simp
  with k decimal_unique [of ip 1] decimal_unique [of fp 3]
  have b: "formatFileSize 1280 = ''1.3 KB''"
    by (simp add: s1 s3)
  from byte_size_format [of 5000000] obtain t ip fp where
    m: "formatFileSize 5000000 = ip @ ''.'' @ fp @ '' MB''"
      "decimal ip (t div 10)" "decimal fp (t mod 10)"
    and "real 5000000 / 1048576 * 10 - 1 / 2 < real t"
      "real t \<le> real 5000000 / 1048576 * 10 + 1 / 2"
    by auto
  then have "47 < t" "t \<le> 48" by simp_all
  then have "t = 48" by simp
  with m decimal_unique [of ip 4] decimal_unique [of fp 8]
  have c: "formatFileSize 5000000 = ''4.8 MB''"
    by (simp add: s4 s8)
  from a b c show ?thesis by blast
qed




text \<open>
  C2 at a concrete input: in the loaded world (format JPEG, quality 0.8) the format is
  changed to PNG. A conversion is issued at once, the committed format is PNG, and the
  conversion asks the encoder for \<open>image/jpeg\<close>; a quality change to 0.5 likewise issues a
  conversion at quality 0.8.
\<close>

theorem format_change_encodes_old_format:
  "format (live loaded_world) = Jpeg
   \<and> format (live (fire echo_platform (FormatChange Png) loaded_world)) = Png
   \<and> map (\<lambda>t. mime (format (closure t))) (pending (fire echo_platform (FormatChange Png) loaded_world))
       = [''image/jpeg'']
   \<and> convertedBlob (live (run echo_platform [FormatChange Png, Loaded 0] loaded_world))
       = Some \<lparr>btype = ''image/jpeg'', bsize = 1638\<rparr>
   \<and> map (\<lambda>t. quality (closure t)) (pending (fire echo_platform (QualityChange (1 / 2)) loaded_world))
       = [8 / 10]"
  by (simp add: loaded_world_eq run_defs echo_platform_def png_file_def)





end
